theory Spec2Isabelle
  imports Main
begin

section \<open>Data model\<close>

text \<open>
  The three tables the claim protocols work on, as the schema comment at the end of the
  optimistic demo and the migration declare them. A table is the list of its rows in the
  order the database scans them: \<open>findFirst\<close> has no \<open>orderBy\<close>, so the first matching row
  of that order is the one returned. The primary keys make the ids of a table distinct;
  theorems that need this say so.
\<close>

record user =
  user_id :: int
  email :: string
  user_name :: string

record movie =
  movie_id :: int
  movie_name :: string

record seat =
  seat_id :: int
  userId :: "int option"
  movieId :: int
  version :: int

record store =
  users :: "user list"
  movies :: "movie list"
  seats :: "seat list"

text \<open>Referential actions of a foreign key, and the two the migration declares.\<close>

datatype fk_action = SetNull | Cascade | Restrict

definition Seat_userId_fkey_on_delete :: fk_action where
  "Seat_userId_fkey_on_delete = SetNull"

definition Seat_movieId_fkey_on_delete :: fk_action where
  "Seat_movieId_fkey_on_delete = Restrict"

text \<open>
  Failures the database reports for a statement. The column type \<open>Int\<close> is a 32-bit
  integer: an increment beyond \<open>INT4_MAX\<close> is refused, it does not wrap. A text
  parameter that holds the character NUL is refused as well, whatever the statement.
\<close>

datatype store_error =
  IntegerOutOfRange | ForeignKeyViolation | RecordNotFound | InvalidByteSequence

datatype js_error = Error string | PrismaError store_error | TransactionExpired

definition INT4_MAX :: int where
  "INT4_MAX = 2147483647"

section \<open>What a run of a function leaves behind\<close>

text \<open>
  Every function of the demos is \<open>async\<close> with no return statement carrying a value: it
  either completes with \<open>undefined\<close> or rejects with the error thrown. What happened is
  visible in the console only: the lines the function prints, and one line per executed
  query, which the client factory prints from its query listener.
\<close>

datatype store_call =
    UserFindUnique string
  | SeatFindFirst string
  | SeatUpdateMany int int int
  | SeatUpdate int int
  | Raw_pg_locks
  | Raw_pg_sleep

datatype event =
    Query store_call
  | Claim_Success int int
  | OCC_Start string
  | OCC_UserNotFound string
  | OCC_FindStart
  | OCC_SoldOut string string
  | OCC_Found string int int
  | OCC_ClaimStart
  | OCC_Failed string int
  | OCC_Success string int int
  | OCC_GivesUp string
  | OCC_Critical js_error
  | T1_Start
  | T1_DataMissing
  | T1_UpdateStart int
  | T1_ConflictSkip
  | T1_UpdateOk int
  | T1_Pausing
  | T1_Locks
  | T1_Resume
  | T1_Committed
  | T1_Failed js_error
  | T2_Start
  | T2_DataMissing
  | T2_ReadDone int int
  | T2_TryUpdate
  | T2_Locks
  | T2_Result nat
  | T2_ConflictDetected
  | T2_Succeeded
  | T2_FinalFailure js_error

datatype completion = ReturnedUndefined | Threw js_error

record run =
  final :: store
  trace :: "event list"
  completion :: completion

section \<open>Queries\<close>

text \<open>
  The reads take a text parameter, so they can be refused; a read that is refused rejects
  the promise the function awaits.
\<close>

definition valid_text :: "string \<Rightarrow> bool" where
  "valid_text str = list_all (\<lambda>c. c \<noteq> CHR 0x00) str"

definition user_findUnique :: "store \<Rightarrow> string \<Rightarrow> store_error + user option" where
  "user_findUnique s e =
     (if valid_text e then Inr (find (\<lambda>u. email u = e) (users s)) else Inl InvalidByteSequence)"

definition user_exists :: "store \<Rightarrow> int \<Rightarrow> bool" where
  "user_exists s uid = list_ex (\<lambda>u. user_id u = uid) (users s)"

text \<open>The filter \<open>{ movie: { name }, claimedBy: null }\<close>: a seat of the named movie with no owner.\<close>

definition available :: "store \<Rightarrow> string \<Rightarrow> seat \<Rightarrow> bool" where
  "available s movieName r \<longleftrightarrow>
     list_ex (\<lambda>m. movie_id m = movieId r \<and> movie_name m = movieName) (movies s) \<and> userId r = None"

definition seat_findFirst :: "store \<Rightarrow> string \<Rightarrow> store_error + seat option" where
  "seat_findFirst s movieName =
     (if valid_text movieName then Inr (find (available s movieName) (seats s))
      else Inl InvalidByteSequence)"

text \<open>
  \<open>seat.updateMany({ data: { userId, version: { increment: 1 } }, where: { id, version } })\<close>:
  every row with that id and that version gets the owner and the next version; the answer
  is the number of rows changed. The statement is atomic: when the database refuses it,
  nothing is written.
\<close>

definition matches :: "int \<Rightarrow> int \<Rightarrow> seat \<Rightarrow> bool" where
  "matches sid ver r \<longleftrightarrow> seat_id r = sid \<and> version r = ver"

definition claim_row :: "int \<Rightarrow> seat \<Rightarrow> seat" where
  "claim_row uid r = r\<lparr>userId := Some uid, version := version r + 1\<rparr>"

definition seat_updateMany :: "store \<Rightarrow> int \<Rightarrow> int \<Rightarrow> int \<Rightarrow> store_error + nat \<times> store" where
  "seat_updateMany s uid sid ver =
     (let hits = filter (matches sid ver) (seats s) in
      if hits = [] then Inr (0, s)
      else if INT4_MAX < ver + 1 then Inl IntegerOutOfRange
      else if \<not> user_exists s uid then Inl ForeignKeyViolation
      else Inr (length hits,
                s\<lparr>seats := map (\<lambda>r. if matches sid ver r then claim_row uid r else r) (seats s)\<rparr>))"

text \<open>
  \<open>seat.update({ data: { claimedBy: { connect: { id } } }, where: { id } })\<close>: the row with
  that id gets the owner; nothing else of the row is written, and the version is not part
  of the condition. A missing row or a missing owner is an error.
\<close>

definition seat_update :: "store \<Rightarrow> int \<Rightarrow> int \<Rightarrow> store_error + store" where
  "seat_update s uid sid =
     (if \<not> list_ex (\<lambda>r. seat_id r = sid) (seats s) then Inl RecordNotFound
      else if \<not> user_exists s uid then Inl RecordNotFound
      else Inr (s\<lparr>seats := map (\<lambda>r. if seat_id r = sid then r\<lparr>userId := Some uid\<rparr> else r) (seats s)\<rparr>))"

text \<open>
  \<open>user.delete({ where: { id } })\<close>. What happens to the seats that refer to the user is
  the referential action of \<open>Seat_userId_fkey\<close>.
\<close>

definition delete_user_with :: "fk_action \<Rightarrow> store \<Rightarrow> int \<Rightarrow> store_error + store" where
  "delete_user_with action s uid =
     (if \<not> user_exists s uid then Inl RecordNotFound
      else case action of
        SetNull \<Rightarrow>
          Inr (s\<lparr>users := filter (\<lambda>u. user_id u \<noteq> uid) (users s),
                 seats := map (\<lambda>r. if userId r = Some uid then r\<lparr>userId := None\<rparr> else r) (seats s)\<rparr>)
      | Cascade \<Rightarrow>
          Inr (s\<lparr>users := filter (\<lambda>u. user_id u \<noteq> uid) (users s),
                 seats := filter (\<lambda>r. userId r \<noteq> Some uid) (seats s)\<rparr>)
      | Restrict \<Rightarrow>
          if list_ex (\<lambda>r. userId r = Some uid) (seats s) then Inl ForeignKeyViolation
          else Inr (s\<lparr>users := filter (\<lambda>u. user_id u \<noteq> uid) (users s)\<rparr>))"

definition user_delete :: "store \<Rightarrow> int \<Rightarrow> store_error + store" where
  "user_delete = delete_user_with Seat_userId_fkey_on_delete"

section \<open>Strings\<close>

fun starts_with :: "string \<Rightarrow> string \<Rightarrow> bool" where
  "starts_with cs [] = True"
| "starts_with [] (p # ps) = False"
| "starts_with (c # cs) (p # ps) = (c = p \<and> starts_with cs ps)"

text \<open>\<open>String.prototype.includes\<close>.\<close>

fun str_includes :: "string \<Rightarrow> string \<Rightarrow> bool" where
  "str_includes [] p = (p = [])"
| "str_includes (c # cs) p = (starts_with (c # cs) p \<or> str_includes cs p)"

section \<open>The claim without a version check: \<open>claimSeat\<close>\<close>

text \<open>
  The functions \<open>await\<close> between their read and their write, so other requesters can
  commit in between. The argument \<open>env\<close> is what they commit there: the write runs on
  \<open>env s\<close>, where \<open>s\<close> is the store the read saw. The identity is a run alone.
\<close>

definition movieName_claimSeat :: string where
  "movieName_claimSeat = ''Hidden Figures''"

definition claimSeat :: "(store \<Rightarrow> store) \<Rightarrow> store \<Rightarrow> int \<Rightarrow> run" where
  "claimSeat env s uid =
     (case seat_findFirst s movieName_claimSeat of
        Inl e \<Rightarrow> \<lparr>final = s, trace = [], completion = Threw (PrismaError e)\<rparr>
      | Inr None \<Rightarrow>
          \<lparr>final = s, trace = [Query (SeatFindFirst movieName_claimSeat)],
           completion = Threw (Error (''Oh no! '' @ movieName_claimSeat @ '' is all booked.''))\<rparr>
      | Inr (Some availableSeat) \<Rightarrow>
          (case seat_update (env s) uid (seat_id availableSeat) of
             Inl e \<Rightarrow>
               \<lparr>final = env s,
                trace = [Query (SeatFindFirst movieName_claimSeat),
                         Query (SeatUpdate uid (seat_id availableSeat))],
                completion = Threw (PrismaError e)\<rparr>
           | Inr s' \<Rightarrow>
               \<lparr>final = s',
                trace = [Query (SeatFindFirst movieName_claimSeat),
                         Query (SeatUpdate uid (seat_id availableSeat)),
                         Claim_Success (seat_id availableSeat) uid],
                completion = ReturnedUndefined\<rparr>))"

section \<open>The optimistic claim: \<open>reserveSeatOCC\<close>\<close>

text \<open>
  The two reads stand before the \<open>try\<close> block: a read the store refuses rejects the
  function with the store's error. The \<open>try\<close> block holds the conditional update and
  the error thrown when it changes no row.
\<close>

definition reserveSeatOCC_try :: "store \<Rightarrow> string \<Rightarrow> user \<Rightarrow> seat \<Rightarrow> store \<times> event list \<times> (js_error + unit)" where
  "reserveSeatOCC_try s userEmail usr availableSeat =
     (case seat_updateMany s (user_id usr) (seat_id availableSeat) (version availableSeat) of
        Inl e \<Rightarrow>
          (s, [OCC_ClaimStart,
               Query (SeatUpdateMany (user_id usr) (seat_id availableSeat) (version availableSeat))],
           Inl (PrismaError e))
      | Inr (count, s') \<Rightarrow>
          if count = 0 then
            (s', [OCC_ClaimStart,
                  Query (SeatUpdateMany (user_id usr) (seat_id availableSeat) (version availableSeat)),
                  OCC_Failed userEmail (seat_id availableSeat)],
             Inl (Error ''That seat is already booked! Please try again.''))
          else
            (s', [OCC_ClaimStart,
                  Query (SeatUpdateMany (user_id usr) (seat_id availableSeat) (version availableSeat)),
                  OCC_Success userEmail (seat_id availableSeat) (version availableSeat + 1)],
             Inr ()))"

text \<open>
  The \<open>catch\<close> block. An error of the client is an \<open>Error\<close> too, with a message of the
  client's own, which does not speak of a booking: it takes the second branch.
\<close>

definition reserveSeatOCC_catch :: "string \<Rightarrow> js_error \<Rightarrow> event list" where
  "reserveSeatOCC_catch userEmail e =
     (case e of
        Error msg \<Rightarrow> if str_includes msg ''already booked'' then [OCC_GivesUp userEmail] else [OCC_Critical e]
      | _ \<Rightarrow> [OCC_Critical e])"

definition reserveSeatOCC :: "(store \<Rightarrow> store) \<Rightarrow> store \<Rightarrow> string \<Rightarrow> string \<Rightarrow> run" where
  "reserveSeatOCC env s userEmail movieName =
     (case user_findUnique s userEmail of
        Inl e \<Rightarrow>
          \<lparr>final = s, trace = [OCC_Start userEmail], completion = Threw (PrismaError e)\<rparr>
      | Inr None \<Rightarrow>
          \<lparr>final = s,
           trace = [OCC_Start userEmail, Query (UserFindUnique userEmail), OCC_UserNotFound userEmail],
           completion = ReturnedUndefined\<rparr>
      | Inr (Some usr) \<Rightarrow>
          (case seat_findFirst s movieName of
             Inl e \<Rightarrow>
               \<lparr>final = s,
                trace = [OCC_Start userEmail, Query (UserFindUnique userEmail), OCC_FindStart],
                completion = Threw (PrismaError e)\<rparr>
           | Inr None \<Rightarrow>
               \<lparr>final = s,
                trace = [OCC_Start userEmail, Query (UserFindUnique userEmail), OCC_FindStart,
                         Query (SeatFindFirst movieName), OCC_SoldOut userEmail movieName],
                completion = ReturnedUndefined\<rparr>
           | Inr (Some availableSeat) \<Rightarrow>
               (case reserveSeatOCC_try (env s) userEmail usr availableSeat of
                  (s', tr, Inr u) \<Rightarrow>
                    \<lparr>final = s',
                     trace = [OCC_Start userEmail, Query (UserFindUnique userEmail), OCC_FindStart,
                              Query (SeatFindFirst movieName),
                              OCC_Found userEmail (seat_id availableSeat) (version availableSeat)] @ tr,
                     completion = ReturnedUndefined\<rparr>
                | (s', tr, Inl e) \<Rightarrow>
                    \<lparr>final = s',
                     trace = [OCC_Start userEmail, Query (UserFindUnique userEmail), OCC_FindStart,
                              Query (SeatFindFirst movieName),
                              OCC_Found userEmail (seat_id availableSeat) (version availableSeat)] @ tr
                             @ reserveSeatOCC_catch userEmail e,
                     completion = ReturnedUndefined\<rparr>)))"

section \<open>Transactions\<close>

text \<open>
  Modelled from the spec: the transaction scope of the store (section 6: operations issued
  inside the scope commit or roll back atomically; section 4.2, step 5: a scope has a
  timeout). The client library and the database that implement it are not part of the
  repository. A scope collects the rows written through its handle \<open>tx\<close>; the
  handle reads the committed rows overlaid with them; commit installs them; rollback
  drops them. A statement issued on the client itself is outside every scope and is
  committed at once. \<open>tx_fate\<close> is the part the clock plays: the scope ends in time,
  or its timeout elapses while its first statement still waits for the row lock, or it
  has elapsed when the callback returns. A statement that waits is not interrupted by
  the timeout: it runs once the lock is free, and the expiry shows at the next statement
  issued on the handle, which is refused, or at the commit, which is refused, when the
  callback issues no further statement on the handle. Either way the scope is rolled
  back.
\<close>

datatype tx_fate = InTime | ExpiresBeforeLock | ExpiresAtCommit

type_synonym tx_writes = "seat list"

definition tx_view :: "store \<Rightarrow> tx_writes \<Rightarrow> store" where
  "tx_view s w =
     s\<lparr>seats := map (\<lambda>r. case find (\<lambda>x. seat_id x = seat_id r) w of None \<Rightarrow> r | Some x \<Rightarrow> x) (seats s)\<rparr>"

definition tx_seat_updateMany ::
  "store \<Rightarrow> tx_writes \<Rightarrow> int \<Rightarrow> int \<Rightarrow> int \<Rightarrow> js_error + nat \<times> tx_writes" where
  "tx_seat_updateMany s w uid sid ver =
     (case seat_updateMany (tx_view s w) uid sid ver of
        Inl e \<Rightarrow> Inl (PrismaError e)
      | Inr (count, s') \<Rightarrow>
          Inr (count, map (claim_row uid) (filter (matches sid ver) (seats (tx_view s w))) @ w))"

text \<open>
  \<open>client.$transaction(callback, options)\<close> once the callback has run: the store as the
  callback left it, what it printed, and the error it threw or the rows it wrote through
  the handle.
\<close>

definition dollar_transaction ::
  "tx_fate \<Rightarrow> store \<times> event list \<times> (js_error + tx_writes) \<Rightarrow> store \<times> event list \<times> (js_error + unit)" where
  "dollar_transaction fate cb =
     (case cb of
        (s, tr, Inl e) \<Rightarrow> (s, tr, Inl e)
      | (s, tr, Inr w) \<Rightarrow>
          if fate = InTime then (tx_view s w, tr, Inr ()) else (s, tr, Inl TransactionExpired))"

section \<open>The lock-hold demo: \<open>transactionT1\<close> and \<open>transactionT2\<close>\<close>

definition MOVIE_NAME :: string where
  "MOVIE_NAME = ''Hidden Figures''"

definition USER_EMAIL_T1 :: string where
  "USER_EMAIL_T1 = ''sorcha@prisma.io''"

definition USER_EMAIL_T2 :: string where
  "USER_EMAIL_T2 = ''ellen@prisma.io''"

text \<open>Both functions read the same way: the user, then the first free seat, then the check of both.\<close>

definition read_phase :: "store \<Rightarrow> string \<Rightarrow> store_error + (user \<times> seat) option" where
  "read_phase s userEmail =
     (case user_findUnique s userEmail of
        Inl e \<Rightarrow> Inl e
      | Inr u \<Rightarrow>
          (case seat_findFirst s MOVIE_NAME of
             Inl e \<Rightarrow> Inl e
           | Inr r \<Rightarrow>
               (case (u, r) of
                  (Some usr, Some availableSeat) \<Rightarrow> Inr (Some (usr, availableSeat))
                | _ \<Rightarrow> Inr None)))"

text \<open>
  The callback of T1 up to its pause: the conditional update through the handle \<open>tx\<close>, and
  the error thrown when it changes no row.
\<close>

definition transactionT1_update ::
  "store \<Rightarrow> user \<Rightarrow> seat \<Rightarrow> store \<times> event list \<times> (js_error + tx_writes)" where
  "transactionT1_update s usr availableSeat =
     (case tx_seat_updateMany s [] (user_id usr) (seat_id availableSeat) (version availableSeat) of
        Inl e \<Rightarrow> (s, [T1_UpdateStart (version availableSeat)], Inl e)
      | Inr (count, w) \<Rightarrow>
          if count = 0 then
            (s, [T1_UpdateStart (version availableSeat),
                 Query (SeatUpdateMany (user_id usr) (seat_id availableSeat) (version availableSeat)),
                 T1_ConflictSkip],
             Inl (Error ''Concurrency Conflict detected''))
          else
            (s, [T1_UpdateStart (version availableSeat),
                 Query (SeatUpdateMany (user_id usr) (seat_id availableSeat) (version availableSeat)),
                 T1_UpdateOk (version availableSeat + 1)],
             Inr w))"

text \<open>
  The rest of the callback: the lock listing and the sleep, both read-only and both issued
  on the handle. When the timeout elapsed while the update waited, the lock listing is
  the next statement on the handle and is refused.
\<close>

definition transactionT1_hold :: "event list" where
  "transactionT1_hold = [T1_Pausing, Query Raw_pg_locks, T1_Locks, Query Raw_pg_sleep, T1_Resume]"

definition transactionT1_callback ::
  "tx_fate \<Rightarrow> store \<Rightarrow> user \<Rightarrow> seat \<Rightarrow> store \<times> event list \<times> (js_error + tx_writes)" where
  "transactionT1_callback fate s usr availableSeat =
     (case transactionT1_update s usr availableSeat of
        (s', tr, Inl e) \<Rightarrow> (s', tr, Inl e)
      | (s', tr, Inr w) \<Rightarrow>
          if fate = ExpiresBeforeLock then (s', tr @ [T1_Pausing], Inl TransactionExpired)
          else (s', tr @ transactionT1_hold, Inr w))"

definition transactionT1 :: "tx_fate \<Rightarrow> (store \<Rightarrow> store) \<Rightarrow> store \<Rightarrow> run" where
  "transactionT1 fate env s =
     (case read_phase s USER_EMAIL_T1 of
        Inl e \<Rightarrow> \<lparr>final = s, trace = [T1_Start], completion = Threw (PrismaError e)\<rparr>
      | Inr None \<Rightarrow>
          \<lparr>final = s,
           trace = [T1_Start, Query (UserFindUnique USER_EMAIL_T1), Query (SeatFindFirst MOVIE_NAME),
                    T1_DataMissing],
           completion = ReturnedUndefined\<rparr>
      | Inr (Some (usr, availableSeat)) \<Rightarrow>
          (case dollar_transaction fate (transactionT1_callback fate (env s) usr availableSeat) of
             (s', tr, Inr u) \<Rightarrow>
               \<lparr>final = s',
                trace = [T1_Start, Query (UserFindUnique USER_EMAIL_T1), Query (SeatFindFirst MOVIE_NAME)]
                        @ tr @ [T1_Committed],
                completion = ReturnedUndefined\<rparr>
           | (s', tr, Inl e) \<Rightarrow>
               \<lparr>final = s',
                trace = [T1_Start, Query (UserFindUnique USER_EMAIL_T1), Query (SeatFindFirst MOVIE_NAME)]
                        @ tr @ [T1_Failed e],
                completion = ReturnedUndefined\<rparr>))"

text \<open>
  The callback of T2 receives the handle \<open>tx\<close> and never uses it: the lock listing and the
  conditional update are issued on \<open>client\<close>, so the update changes the store itself
  and the scope has written nothing when the callback ends.
\<close>

definition transactionT2_callback ::
  "store \<Rightarrow> user \<Rightarrow> seat \<Rightarrow> store \<times> event list \<times> (js_error + tx_writes)" where
  "transactionT2_callback s usr availableSeat =
     (case seat_updateMany s (user_id usr) (seat_id availableSeat) (version availableSeat) of
        Inl e \<Rightarrow>
          (s, [T2_TryUpdate, Query Raw_pg_locks, T2_Locks,
               Query (SeatUpdateMany (user_id usr) (seat_id availableSeat) (version availableSeat))],
           Inl (PrismaError e))
      | Inr (count, s') \<Rightarrow>
          if count = 0 then
            (s', [T2_TryUpdate, Query Raw_pg_locks, T2_Locks,
                  Query (SeatUpdateMany (user_id usr) (seat_id availableSeat) (version availableSeat)),
                  T2_Result count, T2_ConflictDetected],
             Inl (Error ''Concurrency Conflict detected by T2''))
          else
            (s', [T2_TryUpdate, Query Raw_pg_locks, T2_Locks,
                  Query (SeatUpdateMany (user_id usr) (seat_id availableSeat) (version availableSeat)),
                  T2_Result count, T2_Succeeded],
             Inr []))"

text \<open>The transaction of T2 with its \<open>catch\<close>: the store it leaves and what it printed.\<close>

definition transactionT2_attempt :: "tx_fate \<Rightarrow> store \<Rightarrow> user \<Rightarrow> seat \<Rightarrow> store \<times> event list" where
  "transactionT2_attempt fate s usr availableSeat =
     (case dollar_transaction fate (transactionT2_callback s usr availableSeat) of
        (s', tr, Inr u) \<Rightarrow> (s', tr)
      | (s', tr, Inl e) \<Rightarrow> (s', tr @ [T2_FinalFailure e]))"

definition transactionT2 :: "tx_fate \<Rightarrow> (store \<Rightarrow> store) \<Rightarrow> store \<Rightarrow> run" where
  "transactionT2 fate env s =
     (case read_phase s USER_EMAIL_T2 of
        Inl e \<Rightarrow> \<lparr>final = s, trace = [T2_Start], completion = Threw (PrismaError e)\<rparr>
      | Inr None \<Rightarrow>
          \<lparr>final = s,
           trace = [T2_Start, Query (UserFindUnique USER_EMAIL_T2), Query (SeatFindFirst MOVIE_NAME),
                    T2_DataMissing],
           completion = ReturnedUndefined\<rparr>
      | Inr (Some (usr, availableSeat)) \<Rightarrow>
          (case transactionT2_attempt fate (env s) usr availableSeat of
             (s', tr) \<Rightarrow>
               \<lparr>final = s',
                trace = [T2_Start, Query (UserFindUnique USER_EMAIL_T2), Query (SeatFindFirst MOVIE_NAME),
                         T2_ReadDone (seat_id availableSeat) (version availableSeat)] @ tr,
                completion = ReturnedUndefined\<rparr>))"

section \<open>The two transactions side by side\<close>

text \<open>
  Modelled from the spec: the row lock of the store (section 4.2, step 2: a second
  transaction that updates a row written by an open transaction waits until that
  transaction ends; step 4: it then evaluates its own condition on the row as committed).
  A configuration holds the committed store, the rows T1 has written and not yet
  committed (they are the locked rows), where each function stands, and the console. A
  step is one statement of one function; a statement that has to wait has no step.
\<close>

datatype t1_pc = T1_Init | T1_Ready user seat | T1_Holding | T1_Finished

datatype t2_pc = T2_Init | T2_Ready user seat | T2_Finished

record config =
  db :: store
  held :: tx_writes
  pc1 :: t1_pc
  pc2 :: t2_pc
  out :: "event list"

definition blocked :: "store \<Rightarrow> tx_writes \<Rightarrow> int \<Rightarrow> int \<Rightarrow> bool" where
  "blocked s w sid ver =
     list_ex (\<lambda>r. matches sid ver r \<and> list_ex (\<lambda>x. seat_id x = seat_id r) w) (seats s)"

definition T1_commit :: "config \<Rightarrow> config" where
  "T1_commit c =
     c\<lparr>db := tx_view (db c) (held c), held := [], pc1 := T1_Finished,
       out := out c @ transactionT1_hold @ [T1_Committed]\<rparr>"

definition T1_rollback :: "tx_fate \<Rightarrow> config \<Rightarrow> config" where
  "T1_rollback fate c =
     c\<lparr>held := [], pc1 := T1_Finished,
       out := out c @ (if fate = ExpiresBeforeLock then [T1_Pausing] else transactionT1_hold)
                @ [T1_Failed TransactionExpired]\<rparr>"

inductive step :: "config \<Rightarrow> config \<Rightarrow> bool" where
  T1_reads:
    "pc1 c = T1_Init \<Longrightarrow> read_phase (db c) USER_EMAIL_T1 = Inr (Some (usr, r)) \<Longrightarrow>
     step c (c\<lparr>pc1 := T1_Ready usr r,
               out := out c @ [T1_Start, Query (UserFindUnique USER_EMAIL_T1),
                               Query (SeatFindFirst MOVIE_NAME)]\<rparr>)"
| T1_reads_nothing:
    "pc1 c = T1_Init \<Longrightarrow> read_phase (db c) USER_EMAIL_T1 = Inr None \<Longrightarrow>
     step c (c\<lparr>pc1 := T1_Finished,
               out := out c @ [T1_Start, Query (UserFindUnique USER_EMAIL_T1),
                               Query (SeatFindFirst MOVIE_NAME), T1_DataMissing]\<rparr>)"
| T1_read_refused:
    "pc1 c = T1_Init \<Longrightarrow> read_phase (db c) USER_EMAIL_T1 = Inl e \<Longrightarrow>
     step c (c\<lparr>pc1 := T1_Finished, out := out c @ [T1_Start]\<rparr>)"
| T1_updates:
    "pc1 c = T1_Ready usr r \<Longrightarrow> transactionT1_update (db c) usr r = (s', tr, Inr w) \<Longrightarrow>
     step c (c\<lparr>pc1 := T1_Holding, held := w, out := out c @ tr\<rparr>)"
| T1_update_fails:
    "pc1 c = T1_Ready usr r \<Longrightarrow> transactionT1_update (db c) usr r = (s', tr, Inl e) \<Longrightarrow>
     step c (c\<lparr>pc1 := T1_Finished, out := out c @ tr @ [T1_Failed e]\<rparr>)"
| T1_commits:
    "pc1 c = T1_Holding \<Longrightarrow> step c (T1_commit c)"
| T1_expires:
    "pc1 c = T1_Holding \<Longrightarrow> fate \<noteq> InTime \<Longrightarrow> step c (T1_rollback fate c)"
| T2_reads:
    "pc2 c = T2_Init \<Longrightarrow> read_phase (db c) USER_EMAIL_T2 = Inr (Some (usr, r)) \<Longrightarrow>
     step c (c\<lparr>pc2 := T2_Ready usr r,
               out := out c @ [T2_Start, Query (UserFindUnique USER_EMAIL_T2),
                               Query (SeatFindFirst MOVIE_NAME),
                               T2_ReadDone (seat_id r) (version r)]\<rparr>)"
| T2_reads_nothing:
    "pc2 c = T2_Init \<Longrightarrow> read_phase (db c) USER_EMAIL_T2 = Inr None \<Longrightarrow>
     step c (c\<lparr>pc2 := T2_Finished,
               out := out c @ [T2_Start, Query (UserFindUnique USER_EMAIL_T2),
                               Query (SeatFindFirst MOVIE_NAME), T2_DataMissing]\<rparr>)"
| T2_read_refused:
    "pc2 c = T2_Init \<Longrightarrow> read_phase (db c) USER_EMAIL_T2 = Inl e \<Longrightarrow>
     step c (c\<lparr>pc2 := T2_Finished, out := out c @ [T2_Start]\<rparr>)"
| T2_updates:
    "pc2 c = T2_Ready usr r \<Longrightarrow> \<not> blocked (db c) (held c) (seat_id r) (version r) \<Longrightarrow>
     transactionT2_attempt fate (db c) usr r = (s', tr) \<Longrightarrow>
     step c (c\<lparr>db := s', pc2 := T2_Finished, out := out c @ tr\<rparr>)"

section \<open>Concrete stores\<close>

text \<open>
  The store \<open>setupData\<close> leaves: one movie, three users, seat 1 at version 0 with no owner
  (with the keys the sequences give on a fresh database).
\<close>

definition seed_store :: store where
  "seed_store =
     \<lparr>users = [\<lparr>user_id = 1, email = ''alice@prisma.io'', user_name = ''Alice''\<rparr>,
               \<lparr>user_id = 2, email = ''sorcha@prisma.io'', user_name = ''Sorcha''\<rparr>,
               \<lparr>user_id = 3, email = ''ellen@prisma.io'', user_name = ''Ellen''\<rparr>],
      movies = [\<lparr>movie_id = 1, movie_name = ''Hidden Figures''\<rparr>],
      seats = [\<lparr>seat_id = 1, userId = None, movieId = 1, version = 0\<rparr>]\<rparr>"

text \<open>The store once Sorcha (user 2) holds seat 1.\<close>

definition booked_store :: store where
  "booked_store =
     \<lparr>users = [\<lparr>user_id = 1, email = ''alice@prisma.io'', user_name = ''Alice''\<rparr>,
               \<lparr>user_id = 2, email = ''sorcha@prisma.io'', user_name = ''Sorcha''\<rparr>,
               \<lparr>user_id = 3, email = ''ellen@prisma.io'', user_name = ''Ellen''\<rparr>],
      movies = [\<lparr>movie_id = 1, movie_name = ''Hidden Figures''\<rparr>],
      seats = [\<lparr>seat_id = 1, userId = Some 2, movieId = 1, version = 1\<rparr>]\<rparr>"

text \<open>Other requesters, as what they commit between a function's read and its write.\<close>

definition claimSeat_by_1 :: "store \<Rightarrow> store" where
  "claimSeat_by_1 s = final (claimSeat id s 1)"

definition sorcha_reserves :: "store \<Rightarrow> store" where
  "sorcha_reserves s = final (reserveSeatOCC id s ''sorcha@prisma.io'' ''Hidden Figures'')"


text \<open>The store once Ellen (user 3) holds seat 1.\<close>

definition booked_by_Ellen :: store where
  "booked_by_Ellen =
     \<lparr>users = [\<lparr>user_id = 1, email = ''alice@prisma.io'', user_name = ''Alice''\<rparr>,
               \<lparr>user_id = 2, email = ''sorcha@prisma.io'', user_name = ''Sorcha''\<rparr>,
               \<lparr>user_id = 3, email = ''ellen@prisma.io'', user_name = ''Ellen''\<rparr>],
      movies = [\<lparr>movie_id = 1, movie_name = ''Hidden Figures''\<rparr>],
      seats = [\<lparr>seat_id = 1, userId = Some 3, movieId = 1, version = 1\<rparr>]\<rparr>"





text \<open>
  T1 holds rows: its conditional update on an id and a version has changed rows of the
  committed store, and these rows, not yet committed, are what it holds.
\<close>

definition T1_holds :: "config \<Rightarrow> int \<Rightarrow> int \<Rightarrow> int \<Rightarrow> bool" where
  "T1_holds c uid sid ver \<longleftrightarrow>
     pc1 c = T1_Holding
     \<and> (case seat_updateMany (db c) uid sid ver of Inl e \<Rightarrow> False | Inr (n, t) \<Rightarrow> 0 < n)
     \<and> held c = map (claim_row uid) (filter (matches sid ver) (seats (db c)))"


text \<open>The queries a run executed, in order.\<close>

fun queries :: "event list \<Rightarrow> store_call list" where
  "queries [] = []"
| "queries (Query q # es) = q # queries es"
| "queries (e # es) = queries es"

section \<open>Properties of the queries\<close>

lemma str_includes_already_booked:
  "str_includes ''That seat is already booked! Please try again.'' ''already booked''"
  by simp

lemma seed_findFirst:
  "seat_findFirst seed_store ''Hidden Figures'' =
     Inr (Some \<lparr>seat_id = 1, userId = None, movieId = 1, version = 0\<rparr>)"
  by (simp add: seat_findFirst_def valid_text_def seed_store_def available_def)

lemma map_claim_no_hits:
  "filter (matches sid ver) xs = [] \<Longrightarrow> map (\<lambda>r. if matches sid ver r then claim_row uid r else r) xs = xs"
  by (induction xs) (auto split: if_splits)

lemma seat_updateMany_Inr:
  assumes "seat_updateMany s uid sid ver = Inr (c, s')"
  shows "c = length (filter (matches sid ver) (seats s))"
    and "s' = s\<lparr>seats := map (\<lambda>r. if matches sid ver r then claim_row uid r else r) (seats s)\<rparr>"
  using assms
  by (auto simp: seat_updateMany_def Let_def map_claim_no_hits split: if_splits)

lemma claimed_not_matching:
  "filter (matches sid ver) (map (\<lambda>r. if matches sid ver r then claim_row uid r else r) xs) = []"
  by (induction xs) (auto simp: matches_def claim_row_def)

lemma seat_updateMany_no_hits:
  "filter (matches sid ver) (seats s) = [] \<Longrightarrow> seat_updateMany s uid sid ver = Inr (0, s)"
  by (simp add: seat_updateMany_def)

lemma seat_updateMany_stale:
  assumes "seat_updateMany s uidA sid ver = Inr (c, s1)"
  shows "seat_updateMany s1 uidB sid ver = Inr (0, s1)"
proof -
  have "seats s1 = map (\<lambda>r. if matches sid ver r then claim_row uidA r else r) (seats s)"
    using seat_updateMany_Inr(2) [OF assms] by simp
  then have "filter (matches sid ver) (seats s1) = []"
    by (simp add: claimed_not_matching)
  then show ?thesis by (rule seat_updateMany_no_hits)
qed

lemma seat_updateMany_zero:
  assumes "seat_updateMany s uid sid ver = Inr (0, s')"
  shows "s' = s"
  using assms
  by (auto simp: seat_updateMany_def Let_def split: if_splits)

lemma seat_updateMany_Inl:
  "seat_updateMany s uid sid ver = Inl e \<Longrightarrow> filter (matches sid ver) (seats s) \<noteq> []"
  by (auto simp: seat_updateMany_def Let_def split: if_splits)

lemma distinct_hits_le1:
  "distinct (map seat_id xs) \<Longrightarrow> length (filter (matches sid ver) xs) \<le> 1"
proof (induction xs)
  case Nil
  then show ?case by simp
next
  case (Cons x xs)
  show ?case
  proof (cases "matches sid ver x")
    case True
    then have "seat_id x = sid" by (simp add: matches_def)
    with Cons.prems have "sid \<notin> seat_id ` set xs" by auto
    then have "\<forall>y\<in>set xs. seat_id y \<noteq> sid" by blast
    then have "filter (matches sid ver) xs = []"
      by (auto simp: filter_empty_conv matches_def)
    with True show ?thesis by simp
  next
    case False
    with Cons show ?thesis by simp
  qed
qed

lemma seat_id_claim_row: "seat_id (claim_row uid r) = seat_id r"
  by (simp add: claim_row_def)

lemma find_by_id_Some:
  "distinct (map seat_id ys) \<Longrightarrow> r \<in> set ys \<Longrightarrow>
   find (\<lambda>x. seat_id x = seat_id r) (map (claim_row uid) ys) = Some (claim_row uid r)"
proof (induction ys)
  case Nil
  then show ?case by simp
next
  case (Cons y ys)
  show ?case
  proof (cases "seat_id y = seat_id r")
    case True
    have "r = y"
    proof (rule ccontr)
      assume "r \<noteq> y"
      with Cons.prems have "r \<in> set ys" by simp
      then have "seat_id r \<in> seat_id ` set ys" by blast
      with True Cons.prems show False by simp
    qed
    then show ?thesis by (simp add: seat_id_claim_row)
  next
    case False
    with Cons show ?thesis by (auto simp: seat_id_claim_row)
  qed
qed

lemma find_by_id_None:
  "\<forall>y\<in>set ys. seat_id y \<noteq> k \<Longrightarrow> find (\<lambda>x. seat_id x = k) (map (claim_row uid) ys) = None"
  by (induction ys) (auto simp: seat_id_claim_row)

lemma overlay_claimed_rows:
  assumes "distinct (map seat_id xs)"
  shows "map (\<lambda>r. case find (\<lambda>x. seat_id x = seat_id r) (map (claim_row uid) (filter (matches sid ver) xs)) of
                    None \<Rightarrow> r | Some x \<Rightarrow> x) xs
         = map (\<lambda>r. if matches sid ver r then claim_row uid r else r) xs"
proof (rule map_cong [OF refl])
  fix r assume r: "r \<in> set xs"
  have d: "distinct (map seat_id (filter (matches sid ver) xs))"
    using assms by (rule distinct_map_filter)
  show "(case find (\<lambda>x. seat_id x = seat_id r) (map (claim_row uid) (filter (matches sid ver) xs)) of
           None \<Rightarrow> r | Some x \<Rightarrow> x)
        = (if matches sid ver r then claim_row uid r else r)"
  proof (cases "matches sid ver r")
    case True
    with r have "r \<in> set (filter (matches sid ver) xs)" by simp
    from find_by_id_Some [OF d this] True show ?thesis by simp
  next
    case False
    have "\<forall>y\<in>set (filter (matches sid ver) xs). seat_id y \<noteq> seat_id r"
    proof
      fix y assume y: "y \<in> set (filter (matches sid ver) xs)"
      then have "y \<in> set xs" and "matches sid ver y" by simp_all
      with False have "y \<noteq> r" by auto
      with assms r \<open>y \<in> set xs\<close> show "seat_id y \<noteq> seat_id r"
        by (auto simp: distinct_map inj_on_def)
    qed
    from find_by_id_None [OF this] False show ?thesis by simp
  qed
qed

lemma tx_view_empty: "tx_view s [] = s"
  by (simp add: tx_view_def)

lemma tx_commit_is_update:
  assumes "distinct (map seat_id (seats s))"
      and "seat_updateMany s uid sid ver = Inr (c, s')"
  shows "tx_view s (map (claim_row uid) (filter (matches sid ver) (seats s))) = s'"
  using seat_updateMany_Inr(2) [OF assms(2)] overlay_claimed_rows [OF assms(1)]
  by (simp add: tx_view_def)

section \<open>Properties of the functions\<close>

lemma reserveSeatOCC_conflict:
  assumes "user_findUnique s e = Inr (Some usr)"
      and "seat_findFirst s m = Inr (Some snap)"
      and "seat_updateMany (env s) (user_id usr) (seat_id snap) (version snap) = Inr (0, s')"
  shows "reserveSeatOCC env s e m =
           \<lparr>final = env s,
            trace = [OCC_Start e, Query (UserFindUnique e), OCC_FindStart, Query (SeatFindFirst m),
                     OCC_Found e (seat_id snap) (version snap), OCC_ClaimStart,
                     Query (SeatUpdateMany (user_id usr) (seat_id snap) (version snap)),
                     OCC_Failed e (seat_id snap), OCC_GivesUp e],
            completion = ReturnedUndefined\<rparr>"
  using assms seat_updateMany_zero [OF assms(3)]
  by (simp add: reserveSeatOCC_def reserveSeatOCC_try_def reserveSeatOCC_catch_def)

lemma reserveSeatOCC_success:
  assumes "user_findUnique s e = Inr (Some usr)"
      and "seat_findFirst s m = Inr (Some snap)"
      and "seat_updateMany (env s) (user_id usr) (seat_id snap) (version snap) = Inr (c, s')"
      and "0 < c"
  shows "reserveSeatOCC env s e m =
           \<lparr>final = s',
            trace = [OCC_Start e, Query (UserFindUnique e), OCC_FindStart, Query (SeatFindFirst m),
                     OCC_Found e (seat_id snap) (version snap), OCC_ClaimStart,
                     Query (SeatUpdateMany (user_id usr) (seat_id snap) (version snap)),
                     OCC_Success e (seat_id snap) (version snap + 1)],
            completion = ReturnedUndefined\<rparr>"
  using assms
  by (simp add: reserveSeatOCC_def reserveSeatOCC_try_def)

lemma reserveSeatOCC_store_error:
  assumes "user_findUnique s e = Inr (Some usr)"
      and "seat_findFirst s m = Inr (Some snap)"
      and "seat_updateMany (env s) (user_id usr) (seat_id snap) (version snap) = Inl err"
  shows "reserveSeatOCC env s e m =
           \<lparr>final = env s,
            trace = [OCC_Start e, Query (UserFindUnique e), OCC_FindStart, Query (SeatFindFirst m),
                     OCC_Found e (seat_id snap) (version snap), OCC_ClaimStart,
                     Query (SeatUpdateMany (user_id usr) (seat_id snap) (version snap)),
                     OCC_Critical (PrismaError err)],
            completion = ReturnedUndefined\<rparr>"
  using assms
  by (simp add: reserveSeatOCC_def reserveSeatOCC_try_def reserveSeatOCC_catch_def)

lemma reserveSeatOCC_sold_out:
  assumes "user_findUnique s e = Inr (Some usr)"
      and "seat_findFirst s m = Inr None"
  shows "reserveSeatOCC env s e m =
           \<lparr>final = s,
            trace = [OCC_Start e, Query (UserFindUnique e), OCC_FindStart, Query (SeatFindFirst m),
                     OCC_SoldOut e m],
            completion = ReturnedUndefined\<rparr>"
  using assms by (simp add: reserveSeatOCC_def)

lemma reserveSeatOCC_no_user:
  assumes "user_findUnique s e = Inr None"
  shows "reserveSeatOCC env s e m =
           \<lparr>final = s,
            trace = [OCC_Start e, Query (UserFindUnique e), OCC_UserNotFound e],
            completion = ReturnedUndefined\<rparr>"
  using assms by (simp add: reserveSeatOCC_def)

lemma transactionT2_attempt_conflict:
  assumes "seat_updateMany s (user_id usr) (seat_id snap) (version snap) = Inr (0, s')"
  shows "transactionT2_attempt fate s usr snap =
           (s, [T2_TryUpdate, Query Raw_pg_locks, T2_Locks,
                Query (SeatUpdateMany (user_id usr) (seat_id snap) (version snap)),
                T2_Result 0, T2_ConflictDetected,
                T2_FinalFailure (Error ''Concurrency Conflict detected by T2'')])"
  using assms seat_updateMany_zero [OF assms]
  by (simp add: transactionT2_attempt_def transactionT2_callback_def dollar_transaction_def)

lemma transactionT1_callback_conflict:
  assumes "seat_updateMany s (user_id usr) (seat_id snap) (version snap) = Inr (0, s')"
  shows "dollar_transaction fate (transactionT1_callback fate s usr snap) =
           (s, [T1_UpdateStart (version snap),
                Query (SeatUpdateMany (user_id usr) (seat_id snap) (version snap)),
                T1_ConflictSkip],
            Inl (Error ''Concurrency Conflict detected''))"
  using assms
  by (simp add: transactionT1_callback_def transactionT1_update_def tx_seat_updateMany_def
      tx_view_empty dollar_transaction_def)

lemma seed_Ellen:
  "user_findUnique seed_store ''ellen@prisma.io'' =
     Inr (Some \<lparr>user_id = 3, email = ''ellen@prisma.io'', user_name = ''Ellen''\<rparr>)"
  by (simp add: user_findUnique_def valid_text_def seed_store_def)

lemma seed_Sorcha:
  "user_findUnique seed_store ''sorcha@prisma.io'' =
     Inr (Some \<lparr>user_id = 2, email = ''sorcha@prisma.io'', user_name = ''Sorcha''\<rparr>)"
  by (simp add: user_findUnique_def valid_text_def seed_store_def)

lemma seed_update_by_Sorcha:
  "seat_updateMany seed_store 2 1 0 = Inr (1, booked_store)"
  by (simp add: seat_updateMany_def seed_store_def booked_store_def matches_def claim_row_def
      INT4_MAX_def user_exists_def)

lemma seed_update_by_Ellen:
  "seat_updateMany seed_store 3 1 0 =
     Inr (1, seed_store\<lparr>seats := [\<lparr>seat_id = 1, userId = Some 3, movieId = 1, version = 1\<rparr>]\<rparr>)"
  by (simp add: seat_updateMany_def seed_store_def matches_def claim_row_def
      INT4_MAX_def user_exists_def)

lemma sorcha_reserves_seed: "sorcha_reserves seed_store = booked_store"
  using reserveSeatOCC_success [where env = id and s = seed_store and e = "''sorcha@prisma.io''"
      and m = "''Hidden Figures''", OF seed_Sorcha seed_findFirst]
  by (simp add: sorcha_reserves_def seed_update_by_Sorcha)

lemma booked_findFirst: "seat_findFirst booked_store ''Hidden Figures'' = Inr None"
  by (simp add: seat_findFirst_def valid_text_def booked_store_def available_def)

lemma booked_Ellen:
  "user_findUnique booked_store ''ellen@prisma.io'' =
     Inr (Some \<lparr>user_id = 3, email = ''ellen@prisma.io'', user_name = ''Ellen''\<rparr>)"
  by (simp add: user_findUnique_def valid_text_def booked_store_def)

section \<open>No silent overwrite\<close>

lemma claimSeat_success:
  assumes "seat_findFirst s movieName_claimSeat = Inr (Some snap)"
      and "seat_update (env s) uid (seat_id snap) = Inr s'"
  shows "claimSeat env s uid =
           \<lparr>final = s',
            trace = [Query (SeatFindFirst movieName_claimSeat), Query (SeatUpdate uid (seat_id snap)),
                     Claim_Success (seat_id snap) uid],
            completion = ReturnedUndefined\<rparr>"
  using assms by (simp add: claimSeat_def)

lemma claimSeat_sold_out:
  assumes "seat_findFirst s movieName_claimSeat = Inr None"
  shows "claimSeat env s uid =
           \<lparr>final = s,
            trace = [Query (SeatFindFirst movieName_claimSeat)],
            completion = Threw (Error (''Oh no! '' @ movieName_claimSeat @ '' is all booked.''))\<rparr>"
  using assms by (simp add: claimSeat_def)

lemma seed_seat_update_1:
  "seat_update seed_store 1 1 =
     Inr (seed_store\<lparr>seats := [\<lparr>seat_id = 1, userId = Some 1, movieId = 1, version = 0\<rparr>]\<rparr>)"
  by (simp add: seat_update_def seed_store_def user_exists_def)

lemma claimSeat_by_1_seed:
  "claimSeat_by_1 seed_store =
     seed_store\<lparr>seats := [\<lparr>seat_id = 1, userId = Some 1, movieId = 1, version = 0\<rparr>]\<rparr>"
  using claimSeat_success [where env = id and s = seed_store and uid = 1
      and snap = "\<lparr>seat_id = 1, userId = None, movieId = 1, version = 0\<rparr>"]
  by (simp add: claimSeat_by_1_def movieName_claimSeat_def seed_findFirst seed_seat_update_1)

lemma seat_update_over_1:
  "seat_update (seed_store\<lparr>seats := [\<lparr>seat_id = 1, userId = Some 1, movieId = 1, version = 0\<rparr>]\<rparr>) 2 1 =
     Inr (seed_store\<lparr>seats := [\<lparr>seat_id = 1, userId = Some 2, movieId = 1, version = 0\<rparr>]\<rparr>)"
  by (simp add: seat_update_def seed_store_def user_exists_def)

text \<open>
  C1, as stated, fails for \<open>claimSeat\<close>: requester 1 claims seat 1 between the read
  and the write of requester 2; requester 2, whose snapshot is stale, claims it all the
  same and is told so, and the seat that belonged to 1 now belongs to 2.
\<close>

theorem C1_claimSeat_overwrites:
  "map userId (seats (claimSeat_by_1 seed_store)) = [Some 1]
   \<and> completion (claimSeat claimSeat_by_1 seed_store 2) = ReturnedUndefined
   \<and> last (trace (claimSeat claimSeat_by_1 seed_store 2)) = Claim_Success 1 2
   \<and> map userId (seats (final (claimSeat claimSeat_by_1 seed_store 2))) = [Some 2]"
  using claimSeat_success [where env = claimSeat_by_1 and s = seed_store and uid = 2
      and snap = "\<lparr>seat_id = 1, userId = None, movieId = 1, version = 0\<rparr>"]
  by (simp add: movieName_claimSeat_def seed_findFirst claimSeat_by_1_seed seat_update_over_1)

text \<open>
  C1, amended: for the claims that write through the conditional update on id and
  version (\<open>reserveSeatOCC\<close>, \<open>transactionT1\<close>, \<open>transactionT2\<close>). Requester A
  has claimed a seat by that update, with the id and the version of a snapshot as its
  condition; requester B read the same snapshot before A's write and writes after it,
  by that update too. Then B's update changes no row, B prints the conflict (nothing is
  returned or thrown to the caller), and the store stays as A left it.
\<close>

theorem C1_stale_version_conflicts:
  assumes "seat_updateMany s uidA (seat_id snap) (version snap) = Inr (cA, sA)"
      and "0 < cA"
      and "user_findUnique s0 emailB = Inr (Some usrB)"
      and "seat_findFirst s0 movieName = Inr (Some snap)"
      and "env s0 = sA"
  shows "seat_updateMany sA (user_id usrB) (seat_id snap) (version snap) = Inr (0, sA)
       \<and> reserveSeatOCC env s0 emailB movieName =
           \<lparr>final = sA,
            trace = [OCC_Start emailB, Query (UserFindUnique emailB), OCC_FindStart,
                     Query (SeatFindFirst movieName),
                     OCC_Found emailB (seat_id snap) (version snap), OCC_ClaimStart,
                     Query (SeatUpdateMany (user_id usrB) (seat_id snap) (version snap)),
                     OCC_Failed emailB (seat_id snap), OCC_GivesUp emailB],
            completion = ReturnedUndefined\<rparr>
       \<and> transactionT2_attempt fate sA usrB snap =
           (sA, [T2_TryUpdate, Query Raw_pg_locks, T2_Locks,
                 Query (SeatUpdateMany (user_id usrB) (seat_id snap) (version snap)),
                 T2_Result 0, T2_ConflictDetected,
                 T2_FinalFailure (Error ''Concurrency Conflict detected by T2'')])
       \<and> dollar_transaction fate (transactionT1_callback fate sA usrB snap) =
           (sA, [T1_UpdateStart (version snap),
                 Query (SeatUpdateMany (user_id usrB) (seat_id snap) (version snap)),
                 T1_ConflictSkip],
            Inl (Error ''Concurrency Conflict detected''))"
proof -
  have stale: "seat_updateMany sA (user_id usrB) (seat_id snap) (version snap) = Inr (0, sA)"
    using assms(1) by (rule seat_updateMany_stale)
  have occ: "seat_updateMany (env s0) (user_id usrB) (seat_id snap) (version snap) = Inr (0, sA)"
    using stale assms(5) by simp
  show ?thesis
    using stale reserveSeatOCC_conflict [where env = env, OF assms(3) assms(4) occ] assms(5)
      transactionT2_attempt_conflict [OF stale] transactionT1_callback_conflict [OF stale]
    by simp
qed

theorem C1_stale_version_conflicts_witness:
  "seat_updateMany booked_store 3 1 0 = Inr (0, booked_store)
   \<and> final (reserveSeatOCC sorcha_reserves seed_store ''ellen@prisma.io'' ''Hidden Figures'') = booked_store
   \<and> last (trace (reserveSeatOCC sorcha_reserves seed_store ''ellen@prisma.io'' ''Hidden Figures''))
       = OCC_GivesUp ''ellen@prisma.io''
   \<and> fst (transactionT2_attempt InTime booked_store
            \<lparr>user_id = 3, email = ''ellen@prisma.io'', user_name = ''Ellen''\<rparr>
            \<lparr>seat_id = 1, userId = None, movieId = 1, version = 0\<rparr>) = booked_store"
  using C1_stale_version_conflicts [where s = seed_store and uidA = 2
      and snap = "\<lparr>seat_id = 1, userId = None, movieId = 1, version = 0\<rparr>"
      and cA = 1 and sA = booked_store and ?s0.0 = seed_store and emailB = "''ellen@prisma.io''"
      and usrB = "\<lparr>user_id = 3, email = ''ellen@prisma.io'', user_name = ''Ellen''\<rparr>"
      and movieName = "''Hidden Figures''" and env = sorcha_reserves and fate = InTime]
  by (simp add: seed_update_by_Sorcha seed_Ellen seed_findFirst sorcha_reserves_seed)

text \<open>
  The amended claim is about a claim A made by the conditional update. A claim made by
  \<open>claimSeat\<close> leaves the version as it was, so it does not protect itself either: a
  stale \<open>reserveSeatOCC\<close> still finds id and version as it read them, claims the seat
  and reports success.
\<close>

lemma claimSeat_claim_is_overwritten_by_stale_reserveSeatOCC:
  "map userId (seats (claimSeat_by_1 seed_store)) = [Some 1]
   \<and> last (trace (reserveSeatOCC claimSeat_by_1 seed_store ''ellen@prisma.io'' ''Hidden Figures''))
       = OCC_Success ''ellen@prisma.io'' 1 1
   \<and> seats (final (reserveSeatOCC claimSeat_by_1 seed_store ''ellen@prisma.io'' ''Hidden Figures''))
       = [\<lparr>seat_id = 1, userId = Some 3, movieId = 1, version = 1\<rparr>]"
proof -
  have u: "seat_updateMany (claimSeat_by_1 seed_store)
             (user_id \<lparr>user_id = 3, email = ''ellen@prisma.io'', user_name = ''Ellen''\<rparr>)
             (seat_id \<lparr>seat_id = 1, userId = None, movieId = 1, version = 0\<rparr>)
             (version \<lparr>seat_id = 1, userId = None, movieId = 1, version = 0\<rparr>)
           = Inr (1, seed_store\<lparr>seats := [\<lparr>seat_id = 1, userId = Some 3, movieId = 1, version = 1\<rparr>]\<rparr>)"
    by (simp add: claimSeat_by_1_seed)
      (simp add: seat_updateMany_def seed_store_def matches_def claim_row_def INT4_MAX_def
        user_exists_def)
  show ?thesis
    using reserveSeatOCC_success [where env = claimSeat_by_1, OF seed_Ellen seed_findFirst u]
    by (simp add: claimSeat_by_1_seed)
qed

section \<open>Version monotonicity\<close>

lemma reserveSeatOCC_try_success:
  assumes "seat_updateMany t (user_id usr) (seat_id snap) (version snap) = Inr (c, t')"
      and "0 < c"
  shows "reserveSeatOCC_try t e usr snap =
           (t', [OCC_ClaimStart, Query (SeatUpdateMany (user_id usr) (seat_id snap) (version snap)),
                 OCC_Success e (seat_id snap) (version snap + 1)], Inr ())"
  using assms by (simp add: reserveSeatOCC_try_def)

lemma transactionT2_callback_success:
  assumes "seat_updateMany t (user_id usr) (seat_id snap) (version snap) = Inr (c, t')"
      and "0 < c"
  shows "transactionT2_callback t usr snap =
           (t', [T2_TryUpdate, Query Raw_pg_locks, T2_Locks,
                 Query (SeatUpdateMany (user_id usr) (seat_id snap) (version snap)),
                 T2_Result c, T2_Succeeded], Inr [])"
  using assms by (simp add: transactionT2_callback_def)

lemma transactionT2_attempt_store:
  assumes "seat_updateMany t (user_id usr) (seat_id snap) (version snap) = Inr (c, t')"
  shows "fst (transactionT2_attempt fate t usr snap) = t'"
  using assms
  by (simp add: transactionT2_attempt_def transactionT2_callback_def dollar_transaction_def
      tx_view_empty)

lemma transactionT1_update_success:
  assumes "seat_updateMany t (user_id usr) (seat_id snap) (version snap) = Inr (c, t')"
      and "0 < c"
  shows "transactionT1_update t usr snap =
           (t, [T1_UpdateStart (version snap),
                Query (SeatUpdateMany (user_id usr) (seat_id snap) (version snap)),
                T1_UpdateOk (version snap + 1)],
            Inr (map (claim_row (user_id usr)) (filter (matches (seat_id snap) (version snap)) (seats t))))"
  using assms
  by (simp add: transactionT1_update_def tx_seat_updateMany_def tx_view_empty)

lemma transactionT1_commit_store:
  assumes "seat_updateMany t (user_id usr) (seat_id snap) (version snap) = Inr (c, t')"
      and "0 < c"
      and "distinct (map seat_id (seats t))"
  shows "dollar_transaction InTime (transactionT1_callback InTime t usr snap) =
           (t', [T1_UpdateStart (version snap),
                 Query (SeatUpdateMany (user_id usr) (seat_id snap) (version snap)),
                 T1_UpdateOk (version snap + 1)] @ transactionT1_hold,
            Inr ())"
  using transactionT1_update_success [OF assms(1) assms(2)]
    tx_commit_is_update [OF assms(3) assms(1)]
  by (simp add: transactionT1_callback_def dollar_transaction_def)

lemma seat_updateMany_rows:
  assumes "seat_updateMany t uid sid ver = Inr (c, t')"
  shows "users t' = users t"
    and "movies t' = movies t"
    and "length (seats t') = length (seats t)"
    and "i < length (seats t) \<Longrightarrow>
         seats t' ! i = (if matches sid ver (seats t ! i) then claim_row uid (seats t ! i) else seats t ! i)"
  using seat_updateMany_Inr(2) [OF assms] by simp_all

lemma seat_updateMany_hit:
  assumes "seat_updateMany t uid sid ver = Inr (c, t')" and "0 < c"
  shows "\<exists>i<length (seats t). matches sid ver (seats t ! i)"
proof -
  have "filter (matches sid ver) (seats t) \<noteq> []"
    using seat_updateMany_Inr(1) [OF assms(1)] assms(2) by auto
  then obtain r where "r \<in> set (seats t)" and "matches sid ver r"
    by (auto simp: filter_empty_conv)
  then show ?thesis by (auto simp: in_set_conv_nth)
qed

text \<open>
  C2, as stated, fails for \<open>claimSeat\<close>: its claim succeeds and sets the owner, and the
  version of the seat is 0 before and 0 after.
\<close>

theorem C2_claimSeat_keeps_version:
  "completion (claimSeat id seed_store 1) = ReturnedUndefined
   \<and> map userId (seats (final (claimSeat id seed_store 1))) = [Some 1]
   \<and> map version (seats seed_store) = [0]
   \<and> map version (seats (final (claimSeat id seed_store 1))) = [0]"
  using claimSeat_success [where env = id and s = seed_store and uid = 1
      and snap = "\<lparr>seat_id = 1, userId = None, movieId = 1, version = 0\<rparr>"]
  by (simp add: movieName_claimSeat_def seed_findFirst seed_seat_update_1)
    (simp add: seed_store_def)

text \<open>
  C2, amended: for the claims that write through the conditional update on id and
  version. When that update changes a row, the store the claim leaves (for
  \<open>reserveSeatOCC\<close>, for \<open>transactionT2\<close>, and for \<open>transactionT1\<close> once it commits) is
  the store at the write with every row of the snapshot's id and version given the
  version plus exactly 1 and the requester as owner, so that such a row is no longer
  offered as free; the version of every other row is what it was.
\<close>

theorem C2_versioned_claim_increments:
  assumes "user_findUnique s e = Inr (Some usr)"
      and "seat_findFirst s m = Inr (Some snap)"
      and "env s = t"
      and "seat_updateMany t (user_id usr) (seat_id snap) (version snap) = Inr (c, t')"
      and "0 < c"
      and "distinct (map seat_id (seats t))"
  shows "final (reserveSeatOCC env s e m) = t'
       \<and> last (trace (reserveSeatOCC env s e m)) = OCC_Success e (seat_id snap) (version snap + 1)
       \<and> fst (transactionT2_attempt fate t usr snap) = t'
       \<and> fst (dollar_transaction InTime (transactionT1_callback InTime t usr snap)) = t'
       \<and> length (seats t') = length (seats t)
       \<and> (\<exists>i<length (seats t). matches (seat_id snap) (version snap) (seats t ! i))
       \<and> (\<forall>i<length (seats t).
             version (seats t' ! i) =
               (if matches (seat_id snap) (version snap) (seats t ! i)
                then version (seats t ! i) + 1 else version (seats t ! i)))
       \<and> (\<forall>i<length (seats t).
             matches (seat_id snap) (version snap) (seats t ! i) \<longrightarrow>
               version (seats t' ! i) = version snap + 1
               \<and> userId (seats t' ! i) = Some (user_id usr)
               \<and> \<not> available t' m (seats t' ! i))"
proof -
  note upd = assms(4)
  have occ: "seat_updateMany (env s) (user_id usr) (seat_id snap) (version snap) = Inr (c, t')"
    using upd assms(3) by simp
  have a: "final (reserveSeatOCC env s e m) = t'"
    and b: "last (trace (reserveSeatOCC env s e m)) = OCC_Success e (seat_id snap) (version snap + 1)"
    using reserveSeatOCC_success [where env = env, OF assms(1) assms(2) occ assms(5)] by simp_all
  have c: "fst (transactionT2_attempt fate t usr snap) = t'"
    using upd by (rule transactionT2_attempt_store)
  have d: "fst (dollar_transaction InTime (transactionT1_callback InTime t usr snap)) = t'"
    using transactionT1_commit_store [OF upd assms(5) assms(6)] by simp
  have e: "length (seats t') = length (seats t)"
    using upd by (rule seat_updateMany_rows(3))
  have f: "\<exists>i<length (seats t). matches (seat_id snap) (version snap) (seats t ! i)"
    using upd assms(5) by (rule seat_updateMany_hit)
  have g: "\<forall>i<length (seats t).
             version (seats t' ! i) =
               (if matches (seat_id snap) (version snap) (seats t ! i)
                then version (seats t ! i) + 1 else version (seats t ! i))"
    using seat_updateMany_rows(4) [OF upd] by (simp add: claim_row_def)
  have h: "\<forall>i<length (seats t).
             matches (seat_id snap) (version snap) (seats t ! i) \<longrightarrow>
               version (seats t' ! i) = version snap + 1
               \<and> userId (seats t' ! i) = Some (user_id usr)
               \<and> \<not> available t' m (seats t' ! i)"
    using seat_updateMany_rows(4) [OF upd] by (simp add: claim_row_def matches_def available_def)
  from a b c d e f g h show ?thesis by blast
qed

theorem C2_versioned_claim_increments_witness:
  "final (reserveSeatOCC id seed_store ''sorcha@prisma.io'' ''Hidden Figures'') = booked_store
   \<and> last (trace (reserveSeatOCC id seed_store ''sorcha@prisma.io'' ''Hidden Figures''))
       = OCC_Success ''sorcha@prisma.io'' 1 1
   \<and> map version (seats seed_store) = [0]
   \<and> version (seats booked_store ! 0) = 1
   \<and> userId (seats booked_store ! 0) = Some 2"
  using C2_versioned_claim_increments [where s = seed_store and e = "''sorcha@prisma.io''"
      and usr = "\<lparr>user_id = 2, email = ''sorcha@prisma.io'', user_name = ''Sorcha''\<rparr>"
      and m = "''Hidden Figures''"
      and snap = "\<lparr>seat_id = 1, userId = None, movieId = 1, version = 0\<rparr>"
      and env = id and t = seed_store and c = 1 and t' = booked_store and fate = InTime]
  by (simp add: seed_Sorcha seed_findFirst seed_update_by_Sorcha)
    (simp add: seed_store_def booked_store_def)

section \<open>How the optimistic claim reports\<close>

lemma reserveSeatOCC_user_read_refused:
  assumes "user_findUnique s e = Inl err"
  shows "reserveSeatOCC env s e m =
           \<lparr>final = s, trace = [OCC_Start e], completion = Threw (PrismaError err)\<rparr>"
  using assms by (simp add: reserveSeatOCC_def)

lemma reserveSeatOCC_seat_read_refused:
  assumes "user_findUnique s e = Inr (Some usr)"
      and "seat_findFirst s m = Inl err"
  shows "reserveSeatOCC env s e m =
           \<lparr>final = s, trace = [OCC_Start e, Query (UserFindUnique e), OCC_FindStart],
            completion = Threw (PrismaError err)\<rparr>"
  using assms by (simp add: reserveSeatOCC_def)

lemma booked_claimSeat:
  "claimSeat id booked_store 1 =
     \<lparr>final = booked_store, trace = [Query (SeatFindFirst ''Hidden Figures'')],
      completion = Threw (Error ''Oh no! Hidden Figures is all booked.'')\<rparr>"
  using claimSeat_sold_out [where env = id and s = booked_store and uid = 1]
  by (simp add: movieName_claimSeat_def booked_findFirst)

lemma booked_update_by_Ellen: "seat_updateMany booked_store 3 1 0 = Inr (0, booked_store)"
  using seed_update_by_Sorcha by (rule seat_updateMany_stale)

lemma seed_conflict_for_Ellen:
  "seat_updateMany (sorcha_reserves seed_store)
     (user_id \<lparr>user_id = 3, email = ''ellen@prisma.io'', user_name = ''Ellen''\<rparr>)
     (seat_id \<lparr>seat_id = 1, userId = None, movieId = 1, version = 0\<rparr>)
     (version \<lparr>seat_id = 1, userId = None, movieId = 1, version = 0\<rparr>) = Inr (0, booked_store)"
  by (simp add: sorcha_reserves_seed booked_update_by_Ellen)

lemma seed_claim_for_Ellen:
  "seat_updateMany (id seed_store)
     (user_id \<lparr>user_id = 3, email = ''ellen@prisma.io'', user_name = ''Ellen''\<rparr>)
     (seat_id \<lparr>seat_id = 1, userId = None, movieId = 1, version = 0\<rparr>)
     (version \<lparr>seat_id = 1, userId = None, movieId = 1, version = 0\<rparr>)
   = Inr (1, seed_store\<lparr>seats := [\<lparr>seat_id = 1, userId = Some 3, movieId = 1, version = 1\<rparr>]\<rparr>)"
  by (simp add: seed_update_by_Ellen)

text \<open>
  C3, as stated, fails: a conflict, a claim and an exhausted class all end
  \<open>reserveSeatOCC\<close> in the same way, with \<open>undefined\<close>, so the caller cannot tell them
  apart by what is returned; and \<open>claimSeat\<close> reports exhaustion by throwing.
\<close>

theorem C3_same_completion_for_all_outcomes:
  "last (trace (reserveSeatOCC sorcha_reserves seed_store ''ellen@prisma.io'' ''Hidden Figures''))
     = OCC_GivesUp ''ellen@prisma.io''
   \<and> completion (reserveSeatOCC sorcha_reserves seed_store ''ellen@prisma.io'' ''Hidden Figures'')
     = ReturnedUndefined
   \<and> last (trace (reserveSeatOCC id seed_store ''ellen@prisma.io'' ''Hidden Figures''))
     = OCC_Success ''ellen@prisma.io'' 1 1
   \<and> completion (reserveSeatOCC id seed_store ''ellen@prisma.io'' ''Hidden Figures'')
     = ReturnedUndefined
   \<and> last (trace (reserveSeatOCC id booked_store ''ellen@prisma.io'' ''Hidden Figures''))
     = OCC_SoldOut ''ellen@prisma.io'' ''Hidden Figures''
   \<and> completion (reserveSeatOCC id booked_store ''ellen@prisma.io'' ''Hidden Figures'')
     = ReturnedUndefined
   \<and> completion (claimSeat id booked_store 1) = Threw (Error ''Oh no! Hidden Figures is all booked.'')"
  using reserveSeatOCC_conflict [where env = sorcha_reserves, OF seed_Ellen seed_findFirst seed_conflict_for_Ellen]
    reserveSeatOCC_success [where env = id, OF seed_Ellen seed_findFirst seed_claim_for_Ellen]
    reserveSeatOCC_sold_out [where env = id, OF booked_Ellen booked_findFirst]
    booked_claimSeat
  by simp

text \<open>
  C3, amended: \<open>reserveSeatOCC\<close> never throws a conflict or an exhausted class to its
  caller. It rejects only when one of its two reads, which stand before the \<open>try\<close>, is
  refused by the store, and then with the store's error. In every other run it
  completes with \<open>undefined\<close>: the conflict is thrown inside its own \<open>try\<close> and caught
  there, and so is an error of the store raised by the update. What happened is told by
  the last line it prints, not by a value: the user is unknown, the class is sold out,
  the store refused the update, the requester gives up after a conflict, or the seat is
  claimed with its id and new version.
\<close>

theorem C3_reserveSeatOCC_completion:
  "completion (reserveSeatOCC env s e m) =
     (case user_findUnique s e of
        Inl err \<Rightarrow> Threw (PrismaError err)
      | Inr None \<Rightarrow> ReturnedUndefined
      | Inr (Some usr) \<Rightarrow>
          (case seat_findFirst s m of
             Inl err \<Rightarrow> Threw (PrismaError err)
           | Inr r \<Rightarrow> ReturnedUndefined))
   \<and> (case user_findUnique s e of
        Inl err \<Rightarrow> True
      | Inr None \<Rightarrow> last (trace (reserveSeatOCC env s e m)) = OCC_UserNotFound e
      | Inr (Some usr) \<Rightarrow>
          (case seat_findFirst s m of
             Inl err \<Rightarrow> True
           | Inr None \<Rightarrow> last (trace (reserveSeatOCC env s e m)) = OCC_SoldOut e m
           | Inr (Some snap) \<Rightarrow>
               (case seat_updateMany (env s) (user_id usr) (seat_id snap) (version snap) of
                  Inl err \<Rightarrow>
                    last (trace (reserveSeatOCC env s e m)) = OCC_Critical (PrismaError err)
                | Inr (c, s') \<Rightarrow>
                    last (trace (reserveSeatOCC env s e m)) =
                      (if c = 0 then OCC_GivesUp e
                       else OCC_Success e (seat_id snap) (version snap + 1)))))"
proof (cases "user_findUnique s e")
  case (Inl err)
  then show ?thesis by (simp add: reserveSeatOCC_user_read_refused)
next
  case (Inr u)
  show ?thesis
  proof (cases u)
    case None
    with Inr show ?thesis by (simp add: reserveSeatOCC_no_user)
  next
    case (Some usr)
    with Inr have usr: "user_findUnique s e = Inr (Some usr)" by simp
    show ?thesis
    proof (cases "seat_findFirst s m")
      case (Inl err)
      with usr show ?thesis by (simp add: reserveSeatOCC_seat_read_refused)
    next
      case (Inr r)
      show ?thesis
      proof (cases r)
        case None
        with Inr usr show ?thesis by (simp add: reserveSeatOCC_sold_out)
      next
        case (Some snap)
        with Inr have snap: "seat_findFirst s m = Inr (Some snap)" by simp
        show ?thesis
        proof (cases "seat_updateMany (env s) (user_id usr) (seat_id snap) (version snap)")
          case (Inl err)
          from reserveSeatOCC_store_error [where env = env, OF usr snap Inl] usr snap Inl
          show ?thesis by simp
        next
          case (Inr p)
          obtain c s' where p: "p = (c, s')" by (cases p)
          show ?thesis
          proof (cases "c = 0")
            case True
            with Inr p have z: "seat_updateMany (env s) (user_id usr) (seat_id snap) (version snap) = Inr (0, s')"
              by simp
            from reserveSeatOCC_conflict [where env = env, OF usr snap z] usr snap z
            show ?thesis by simp
          next
            case False
            with Inr p have z: "seat_updateMany (env s) (user_id usr) (seat_id snap) (version snap) = Inr (c, s')"
              and pos: "0 < c" by simp_all
            from reserveSeatOCC_success [where env = env, OF usr snap z pos] usr snap z pos
            show ?thesis by simp
          qed
        qed
      qed
    qed
  qed
qed

theorem C3_reserveSeatOCC_completion_witness:
  "completion (reserveSeatOCC sorcha_reserves seed_store ''ellen@prisma.io'' ''Hidden Figures'')
     = ReturnedUndefined
   \<and> last (trace (reserveSeatOCC sorcha_reserves seed_store ''ellen@prisma.io'' ''Hidden Figures''))
     = OCC_GivesUp ''ellen@prisma.io''
   \<and> completion (reserveSeatOCC id seed_store [CHR 0x00] ''Hidden Figures'')
     = Threw (PrismaError InvalidByteSequence)"
  using C3_reserveSeatOCC_completion [of sorcha_reserves seed_store "''ellen@prisma.io''"
      "''Hidden Figures''"]
    C3_reserveSeatOCC_completion [of id seed_store "[CHR 0x00]" "''Hidden Figures''"]
  by (simp add: seed_Ellen seed_findFirst sorcha_reserves_seed booked_update_by_Ellen)
    (simp add: user_findUnique_def valid_text_def)

section \<open>No implicit retry\<close>

text \<open>
  C4, as stated, fails in what is returned: on the conflict \<open>reserveSeatOCC\<close> returns no
  \<open>Conflict\<close>, it completes with \<open>undefined\<close> as it does when the seat is claimed; the
  conflict is in the lines it prints.
\<close>

theorem C4_conflict_returns_undefined:
  "trace (reserveSeatOCC sorcha_reserves seed_store ''ellen@prisma.io'' ''Hidden Figures'') =
     [OCC_Start ''ellen@prisma.io'', Query (UserFindUnique ''ellen@prisma.io''), OCC_FindStart,
      Query (SeatFindFirst ''Hidden Figures''), OCC_Found ''ellen@prisma.io'' 1 0, OCC_ClaimStart,
      Query (SeatUpdateMany 3 1 0), OCC_Failed ''ellen@prisma.io'' 1, OCC_GivesUp ''ellen@prisma.io'']
   \<and> completion (reserveSeatOCC sorcha_reserves seed_store ''ellen@prisma.io'' ''Hidden Figures'')
     = ReturnedUndefined
   \<and> completion (reserveSeatOCC id seed_store ''ellen@prisma.io'' ''Hidden Figures'')
     = ReturnedUndefined"
  using reserveSeatOCC_conflict [where env = sorcha_reserves, OF seed_Ellen seed_findFirst seed_conflict_for_Ellen]
    reserveSeatOCC_success [where env = id, OF seed_Ellen seed_findFirst seed_claim_for_Ellen]
  by simp

text \<open>
  C4, amended: when the conditional update of \<open>reserveSeatOCC\<close> changes no row, the
  function prints the conflict, completes with \<open>undefined\<close> and ends. The whole run is
  one lookup of the user, one read of the first free seat and one conditional update;
  nothing is read or written again, and the store is left as it was at the write.
\<close>

theorem C4_conflict_ends_without_retry:
  assumes "user_findUnique s e = Inr (Some usr)"
      and "seat_findFirst s m = Inr (Some snap)"
      and "seat_updateMany (env s) (user_id usr) (seat_id snap) (version snap) = Inr (0, s')"
  shows "trace (reserveSeatOCC env s e m) =
           [OCC_Start e, Query (UserFindUnique e), OCC_FindStart, Query (SeatFindFirst m),
            OCC_Found e (seat_id snap) (version snap), OCC_ClaimStart,
            Query (SeatUpdateMany (user_id usr) (seat_id snap) (version snap)),
            OCC_Failed e (seat_id snap), OCC_GivesUp e]
       \<and> queries (trace (reserveSeatOCC env s e m)) =
           [UserFindUnique e, SeatFindFirst m,
            SeatUpdateMany (user_id usr) (seat_id snap) (version snap)]
       \<and> final (reserveSeatOCC env s e m) = env s
       \<and> completion (reserveSeatOCC env s e m) = ReturnedUndefined"
  using reserveSeatOCC_conflict [where env = env, OF assms] by simp

theorem C4_conflict_ends_without_retry_witness:
  "queries (trace (reserveSeatOCC sorcha_reserves seed_store ''ellen@prisma.io'' ''Hidden Figures''))
     = [UserFindUnique ''ellen@prisma.io'', SeatFindFirst ''Hidden Figures'', SeatUpdateMany 3 1 0]
   \<and> final (reserveSeatOCC sorcha_reserves seed_store ''ellen@prisma.io'' ''Hidden Figures'') = booked_store"
  using C4_conflict_ends_without_retry [where env = sorcha_reserves and s = seed_store
      and e = "''ellen@prisma.io''" and m = "''Hidden Figures''"
      and usr = "\<lparr>user_id = 3, email = ''ellen@prisma.io'', user_name = ''Ellen''\<rparr>"
      and snap = "\<lparr>seat_id = 1, userId = None, movieId = 1, version = 0\<rparr>"
      and s' = booked_store]
  by (simp add: seed_Ellen seed_findFirst sorcha_reserves_seed booked_update_by_Ellen)

section \<open>Exhaustion\<close>







section \<open>Deleting an owner\<close>

lemma user_delete_eq:
  assumes "user_exists s uid"
  shows "user_delete s uid =
           Inr (s\<lparr>users := filter (\<lambda>u. user_id u \<noteq> uid) (users s),
                  seats := map (\<lambda>r. if userId r = Some uid then r\<lparr>userId := None\<rparr> else r) (seats s)\<rparr>)"
  using assms
  by (simp add: user_delete_def delete_user_with_def Seat_userId_fkey_on_delete_def)

lemma booked_delete_Sorcha:
  "user_delete booked_store 2 =
     Inr \<lparr>users = [\<lparr>user_id = 1, email = ''alice@prisma.io'', user_name = ''Alice''\<rparr>,
                   \<lparr>user_id = 3, email = ''ellen@prisma.io'', user_name = ''Ellen''\<rparr>],
          movies = [\<lparr>movie_id = 1, movie_name = ''Hidden Figures''\<rparr>],
          seats = [\<lparr>seat_id = 1, userId = None, movieId = 1, version = 1\<rparr>]\<rparr>"
  by (simp add: user_delete_def delete_user_with_def Seat_userId_fkey_on_delete_def
      booked_store_def user_exists_def)

text \<open>
  C9: deleting a user the store holds always goes through, whatever seats the user
  holds, with the referential action the migration gives \<open>Seat_userId_fkey\<close>. It keeps
  every seat: the seats the user held are the same rows with the owner set to null, so
  they are free again, every other seat is untouched, and no seat refers to the deleted
  user any more.
\<close>

theorem C9_user_delete_sets_null:
  assumes "user_exists s uid"
  shows "\<exists>s'. user_delete s uid = Inr s'
            \<and> map seat_id (seats s') = map seat_id (seats s)
            \<and> length (seats s') = length (seats s)
            \<and> (\<forall>i<length (seats s).
                  seats s' ! i =
                    (if userId (seats s ! i) = Some uid then (seats s ! i)\<lparr>userId := None\<rparr>
                     else seats s ! i))
            \<and> \<not> list_ex (\<lambda>r. userId r = Some uid) (seats s')
            \<and> \<not> user_exists s' uid
            \<and> movies s' = movies s"
proof -
  define s' where "s' = s\<lparr>users := filter (\<lambda>u. user_id u \<noteq> uid) (users s),
                  seats := map (\<lambda>r. if userId r = Some uid then r\<lparr>userId := None\<rparr> else r) (seats s)\<rparr>"
  have del: "user_delete s uid = Inr s'"
    using user_delete_eq [OF assms] by (simp add: s'_def)
  have a: "map seat_id (seats s') = map seat_id (seats s)"
    by (auto simp: s'_def comp_def)
  have b: "length (seats s') = length (seats s)"
    by (simp add: s'_def)
  have c: "\<forall>i<length (seats s).
             seats s' ! i =
               (if userId (seats s ! i) = Some uid then (seats s ! i)\<lparr>userId := None\<rparr>
                else seats s ! i)"
    by (simp add: s'_def)
  have d: "\<not> list_ex (\<lambda>r. userId r = Some uid) (seats s')"
    by (auto simp: s'_def list_ex_iff)
  have e: "\<not> user_exists s' uid"
    by (auto simp: s'_def user_exists_def list_ex_iff)
  have f: "movies s' = movies s"
    by (simp add: s'_def)
  from del a b c d e f show ?thesis by blast
qed

theorem C9_user_delete_sets_null_witness:
  "map userId (seats booked_store) = [Some 2]
   \<and> (\<exists>s'. user_delete booked_store 2 = Inr s'
          \<and> map seat_id (seats s') = [1]
          \<and> map userId (seats s') = [None]
          \<and> seat_findFirst s' ''Hidden Figures''
              = Inr (Some \<lparr>seat_id = 1, userId = None, movieId = 1, version = 1\<rparr>))"
proof -
  have ex: "user_exists booked_store 2"
    by (simp add: user_exists_def booked_store_def)
  from C9_user_delete_sets_null [OF ex] obtain s' where
    del: "user_delete booked_store 2 = Inr s'" by blast
  have held: "map userId (seats booked_store) = [Some 2]"
    by (simp add: booked_store_def)
  have eq: "s' =
     \<lparr>users = [\<lparr>user_id = 1, email = ''alice@prisma.io'', user_name = ''Alice''\<rparr>,
              \<lparr>user_id = 3, email = ''ellen@prisma.io'', user_name = ''Ellen''\<rparr>],
      movies = [\<lparr>movie_id = 1, movie_name = ''Hidden Figures''\<rparr>],
      seats = [\<lparr>seat_id = 1, userId = None, movieId = 1, version = 1\<rparr>]\<rparr>"
    using del by (simp add: booked_delete_Sorcha)
  have ids: "map seat_id (seats s') = [1]" and owners: "map userId (seats s') = [None]"
    and free: "seat_findFirst s' ''Hidden Figures''
              = Inr (Some \<lparr>seat_id = 1, userId = None, movieId = 1, version = 1\<rparr>)"
    by (simp_all add: eq seat_findFirst_def valid_text_def available_def)
  have "\<exists>s'. user_delete booked_store 2 = Inr s'
          \<and> map seat_id (seats s') = [1]
          \<and> map userId (seats s') = [None]
          \<and> seat_findFirst s' ''Hidden Figures''
              = Inr (Some \<lparr>seat_id = 1, userId = None, movieId = 1, version = 1\<rparr>)"
    using del ids owners free by (intro exI [of _ s']) simp
  with held show ?thesis by simp
qed

section \<open>What a claim writes\<close>

text \<open>
  C10: a claim of \<open>reserveSeatOCC\<close> that succeeds issues one conditional update, which
  changes one row (ids are the primary key): in that row the owner and the version,
  nothing else; the ids and the movies of all seats, every seat with another id, the
  users and the movies are what they were at the write. The update of \<open>transactionT1\<close>,
  once committed, leaves the same store.
\<close>

theorem C10_claim_writes_owner_and_version_only:
  assumes "user_findUnique s e = Inr (Some usr)"
      and "seat_findFirst s m = Inr (Some snap)"
      and "env s = t"
      and "seat_updateMany t (user_id usr) (seat_id snap) (version snap) = Inr (c, t')"
      and "0 < c"
      and "distinct (map seat_id (seats t))"
  shows "final (reserveSeatOCC env s e m) = t'
       \<and> fst (dollar_transaction InTime (transactionT1_callback InTime t usr snap)) = t'
       \<and> queries (trace (reserveSeatOCC env s e m)) =
           [UserFindUnique e, SeatFindFirst m,
            SeatUpdateMany (user_id usr) (seat_id snap) (version snap)]
       \<and> c = 1
       \<and> users t' = users t
       \<and> movies t' = movies t
       \<and> map seat_id (seats t') = map seat_id (seats t)
       \<and> map movieId (seats t') = map movieId (seats t)
       \<and> (\<forall>i<length (seats t).
             seats t' ! i =
               (if seat_id (seats t ! i) = seat_id snap
                then (seats t ! i)\<lparr>userId := Some (user_id usr), version := version snap + 1\<rparr>
                else seats t ! i))"
proof -
  note upd = assms(4)
  have occ: "seat_updateMany (env s) (user_id usr) (seat_id snap) (version snap) = Inr (c, t')"
    using upd assms(3) by simp
  have a: "final (reserveSeatOCC env s e m) = t'"
    and q: "queries (trace (reserveSeatOCC env s e m)) =
           [UserFindUnique e, SeatFindFirst m,
            SeatUpdateMany (user_id usr) (seat_id snap) (version snap)]"
    using reserveSeatOCC_success [where env = env, OF assms(1) assms(2) occ assms(5)] by simp_all
  have b: "fst (dollar_transaction InTime (transactionT1_callback InTime t usr snap)) = t'"
    using transactionT1_commit_store [OF upd assms(5) assms(6)] by simp
  have "c \<le> 1"
    using seat_updateMany_Inr(1) [OF upd] distinct_hits_le1 [OF assms(6)] by simp
  with assms(5) have c1: "c = 1" by simp
  note eq = seat_updateMany_Inr(2) [OF upd]
  have u: "users t' = users t" and mv: "movies t' = movies t"
    by (simp_all add: eq)
  have ids: "map seat_id (seats t') = map seat_id (seats t)"
    by (auto simp: eq comp_def claim_row_def)
  have mids: "map movieId (seats t') = map movieId (seats t)"
    by (auto simp: eq comp_def claim_row_def)
  obtain j where j: "j < length (seats t)" and hit: "matches (seat_id snap) (version snap) (seats t ! j)"
    using seat_updateMany_hit [OF upd assms(5)] by blast
  have rows: "\<forall>i<length (seats t).
             seats t' ! i =
               (if seat_id (seats t ! i) = seat_id snap
                then (seats t ! i)\<lparr>userId := Some (user_id usr), version := version snap + 1\<rparr>
                else seats t ! i)"
  proof (intro allI impI)
    fix i assume i: "i < length (seats t)"
    show "seats t' ! i =
               (if seat_id (seats t ! i) = seat_id snap
                then (seats t ! i)\<lparr>userId := Some (user_id usr), version := version snap + 1\<rparr>
                else seats t ! i)"
    proof (cases "seat_id (seats t ! i) = seat_id snap")
      case True
      with hit have "map seat_id (seats t) ! i = map seat_id (seats t) ! j"
        using i j by (simp add: matches_def)
      with i j have "i = j"
        using nth_eq_iff_index_eq [OF assms(6), of i j] by simp
      with hit True i show ?thesis
        by (simp add: eq claim_row_def matches_def)
    next
      case False
      with i show ?thesis by (simp add: eq matches_def)
    qed
  qed
  from a b q c1 u mv ids mids rows show ?thesis by blast
qed

theorem C10_claim_writes_owner_and_version_only_witness:
  "final (reserveSeatOCC id seed_store ''sorcha@prisma.io'' ''Hidden Figures'') = booked_store
   \<and> users booked_store = users seed_store
   \<and> movies booked_store = movies seed_store
   \<and> map seat_id (seats booked_store) = map seat_id (seats seed_store)
   \<and> map movieId (seats booked_store) = map movieId (seats seed_store)"
  using C10_claim_writes_owner_and_version_only [where s = seed_store and e = "''sorcha@prisma.io''"
      and usr = "\<lparr>user_id = 2, email = ''sorcha@prisma.io'', user_name = ''Sorcha''\<rparr>"
      and m = "''Hidden Figures''"
      and snap = "\<lparr>seat_id = 1, userId = None, movieId = 1, version = 0\<rparr>"
      and env = id and t = seed_store and c = 1 and t' = booked_store]
  by (simp add: seed_Sorcha seed_findFirst seed_update_by_Sorcha)
    (simp add: seed_store_def)

section \<open>Failed attempts and the store\<close>

lemma seed_read_T1:
  "read_phase seed_store USER_EMAIL_T1 =
     Inr (Some (\<lparr>user_id = 2, email = ''sorcha@prisma.io'', user_name = ''Sorcha''\<rparr>,
                \<lparr>seat_id = 1, userId = None, movieId = 1, version = 0\<rparr>))"
  by (simp add: read_phase_def USER_EMAIL_T1_def MOVIE_NAME_def seed_Sorcha seed_findFirst)

lemma seed_read_T2:
  "read_phase seed_store USER_EMAIL_T2 =
     Inr (Some (\<lparr>user_id = 3, email = ''ellen@prisma.io'', user_name = ''Ellen''\<rparr>,
                \<lparr>seat_id = 1, userId = None, movieId = 1, version = 0\<rparr>))"
  by (simp add: read_phase_def USER_EMAIL_T2_def MOVIE_NAME_def seed_Ellen seed_findFirst)

lemma seed_update_by_Ellen_booked: "seat_updateMany seed_store 3 1 0 = Inr (1, booked_by_Ellen)"
  by (simp add: seed_update_by_Ellen) (simp add: seed_store_def booked_by_Ellen_def)








lemma transactionT2_seed_expired:
  "transactionT2 ExpiresAtCommit id seed_store =
     \<lparr>final = booked_by_Ellen,
      trace = [T2_Start, Query (UserFindUnique USER_EMAIL_T2), Query (SeatFindFirst MOVIE_NAME),
               T2_ReadDone 1 0, T2_TryUpdate, Query Raw_pg_locks, T2_Locks,
               Query (SeatUpdateMany 3 1 0), T2_Result 1, T2_Succeeded,
               T2_FinalFailure TransactionExpired],
      completion = ReturnedUndefined\<rparr>"
  using transactionT2_callback_success [where t = seed_store
      and usr = "\<lparr>user_id = 3, email = ''ellen@prisma.io'', user_name = ''Ellen''\<rparr>"
      and snap = "\<lparr>seat_id = 1, userId = None, movieId = 1, version = 0\<rparr>"
      and c = 1 and t' = booked_by_Ellen]
  by (simp add: transactionT2_def seed_read_T2 transactionT2_attempt_def dollar_transaction_def
      seed_update_by_Ellen_booked)

text \<open>
  C6 holds for \<open>transactionT1\<close> and fails for \<open>transactionT2\<close>. On the seeded store, with
  nobody else writing, the transaction of T2 has expired when its callback returns: T2
  prints its final failure, and the seat is Ellen's at version 1 all the same, because
  the update went through \<open>client\<close> and not through the handle of the transaction.
  T1, which writes through the handle, leaves the store as it was in the same situation.
\<close>

theorem C6_transactionT2_failure_keeps_its_write:
  "last (trace (transactionT2 ExpiresAtCommit id seed_store)) = T2_FinalFailure TransactionExpired
   \<and> seats seed_store = [\<lparr>seat_id = 1, userId = None, movieId = 1, version = 0\<rparr>]
   \<and> seats (final (transactionT2 ExpiresAtCommit id seed_store))
       = [\<lparr>seat_id = 1, userId = Some 3, movieId = 1, version = 1\<rparr>]
   \<and> last (trace (transactionT1 ExpiresAtCommit id seed_store)) = T1_Failed TransactionExpired
   \<and> final (transactionT1 ExpiresAtCommit id seed_store) = seed_store"
proof -
  have t1: "dollar_transaction ExpiresAtCommit
              (transactionT1_callback ExpiresAtCommit (id seed_store)
                 \<lparr>user_id = 2, email = ''sorcha@prisma.io'', user_name = ''Sorcha''\<rparr>
                 \<lparr>seat_id = 1, userId = None, movieId = 1, version = 0\<rparr>)
            = (seed_store,
               [T1_UpdateStart 0, Query (SeatUpdateMany 2 1 0), T1_UpdateOk 1] @ transactionT1_hold,
               Inl TransactionExpired)"
    using transactionT1_update_success [where t = seed_store
        and usr = "\<lparr>user_id = 2, email = ''sorcha@prisma.io'', user_name = ''Sorcha''\<rparr>"
        and snap = "\<lparr>seat_id = 1, userId = None, movieId = 1, version = 0\<rparr>"
        and c = 1 and t' = booked_store]
    by (simp add: seed_update_by_Sorcha transactionT1_callback_def dollar_transaction_def)
  have "transactionT1 ExpiresAtCommit id seed_store =
          \<lparr>final = seed_store,
           trace = [T1_Start, Query (UserFindUnique USER_EMAIL_T1), Query (SeatFindFirst MOVIE_NAME)]
                   @ ([T1_UpdateStart 0, Query (SeatUpdateMany 2 1 0), T1_UpdateOk 1] @ transactionT1_hold)
                   @ [T1_Failed TransactionExpired],
           completion = ReturnedUndefined\<rparr>"
    using t1 by (simp add: transactionT1_def seed_read_T1)
  then show ?thesis
    by (simp add: transactionT2_seed_expired) (simp add: seed_store_def booked_by_Ellen_def)
qed

section \<open>Timeouts\<close>






section \<open>The waiting transaction\<close>

lemma transactionT1_update_Inr:
  assumes "transactionT1_update t usr snap = (s', tr, Inr w)"
  shows "\<exists>n t'. seat_updateMany t (user_id usr) (seat_id snap) (version snap) = Inr (n, t') \<and> 0 < n"
    and "w = map (claim_row (user_id usr)) (filter (matches (seat_id snap) (version snap)) (seats t))"
    and "tr = [T1_UpdateStart (version snap),
               Query (SeatUpdateMany (user_id usr) (seat_id snap) (version snap)),
               T1_UpdateOk (version snap + 1)]"
  using assms
  by (auto simp: transactionT1_update_def tx_seat_updateMany_def tx_view_empty
      split: sum.splits if_splits prod.splits)





lemma step_to_holding:
  assumes "step c0 c"
      and "pc1 c0 = T1_Ready usr1 snap1"
      and "pc1 c = T1_Holding"
  shows "\<exists>s' tr w. transactionT1_update (db c0) usr1 snap1 = (s', tr, Inr w)
           \<and> c = c0\<lparr>pc1 := T1_Holding, held := w, out := out c0 @ tr\<rparr>"
  using assms by (cases rule: step.cases) auto


text \<open>How the row comes to be held: by the update of T1, wherever T2 stands.\<close>

lemma holding_after_update:
  assumes "step c0 c"
      and "pc1 c0 = T1_Ready usr1 snap1"
      and "pc1 c = T1_Holding"
  shows "T1_holds c (user_id usr1) (seat_id snap1) (version snap1)"
    and "db c = db c0"
    and "pc2 c = pc2 c0"
proof -
  obtain s' tr w where upd: "transactionT1_update (db c0) usr1 snap1 = (s', tr, Inr w)"
    and c: "c = c0\<lparr>pc1 := T1_Holding, held := w, out := out c0 @ tr\<rparr>"
    using step_to_holding [OF assms] by blast
  show "db c = db c0" and "pc2 c = pc2 c0" using c by simp_all
  show "T1_holds c (user_id usr1) (seat_id snap1) (version snap1)"
    using transactionT1_update_Inr(1) [OF upd] transactionT1_update_Inr(2) [OF upd] c
    by (auto simp: T1_holds_def)
qed

text \<open>
  T2 reading while T1 holds the row reads the committed store, which T1's update has not
  changed, and T1 goes on holding.
\<close>

lemma T2_reads_while_T1_holds:
  assumes "step c c'"
      and "T1_holds c uid sid ver"
      and "pc2 c = T2_Init"
      and "pc2 c' = T2_Ready usr2 snap2"
  shows "T1_holds c' uid sid ver"
    and "db c' = db c"
    and "read_phase (db c) USER_EMAIL_T2 = Inr (Some (usr2, snap2))"
proof -
  have h: "pc1 c = T1_Holding" using assms(2) by (simp add: T1_holds_def)
  from assms(1) h assms(3) assms(4)
  have "c' = c\<lparr>pc2 := T2_Ready usr2 snap2,
               out := out c @ [T2_Start, Query (UserFindUnique USER_EMAIL_T2),
                               Query (SeatFindFirst MOVIE_NAME),
                               T2_ReadDone (seat_id snap2) (version snap2)]\<rparr>
        \<and> read_phase (db c) USER_EMAIL_T2 = Inr (Some (usr2, snap2))"
    by (cases rule: step.cases) (auto simp: T1_commit_def T1_rollback_def)
  then show "T1_holds c' uid sid ver" and "db c' = db c"
    and "read_phase (db c) USER_EMAIL_T2 = Inr (Some (usr2, snap2))"
    using assms(2) by (simp_all add: T1_holds_def)
qed








end
